theory Spec2Isabelle
  imports Complex_Main "HOL-Library.Word" "HOL-Library.Signed_Division"
begin

section \<open>julianshen/vips: the resize planner and the orientation resolver of vips.go\<close>

text \<open>
  The theory embeds \<^verbatim>\<open>vips.go\<close> and the C bridge \<^verbatim>\<open>vips.h\<close> that it includes.

  \<^item> Go's \<^verbatim>\<open>int\<close> is modelled by \<open>int\<close>. The integers the code adds and subtracts are
    image dimensions, read from the C \<^verbatim>\<open>int\<close> fields \<^verbatim>\<open>Xsize\<close> and \<^verbatim>\<open>Ysize\<close>, and the
    sizes the caller asks for; no claim is about wrap-around at the 64-bit boundary.
    Go's \<^verbatim>\<open>/\<close> and \<^verbatim>\<open>%\<close> truncate towards zero: they are \<open>sdiv\<close> and \<open>smod\<close>.
  \<^item> A \<^verbatim>\<open>float64\<close> or \<^verbatim>\<open>float32\<close> is the real number it denotes, an infinity or NaN.
    The rounding of every arithmetic operation is a parameter (\<open>fpu\<close>), so that what is
    proved holds whatever the rounding is; the one property that needs something of the
    rounding (on \<^verbatim>\<open>getAngle\<close>) assumes it. Signed zeros are not distinguished.
  \<^item> The native library is a parameter too (\<open>engine\<close>): each libvips function is a
    function from its arguments to its status code, the image it writes through its
    out-pointer (if it writes one) and the text it appends to the error buffer.
  \<^item> A panic of the Go runtime is a value of the result type.
\<close>

subsection \<open>Floating point\<close>

datatype float = Finite real | PosInf | NegInf | NaN

record fpu =
  round64 :: "real \<Rightarrow> real"  \<comment> \<open>rounding to the nearest \<^verbatim>\<open>float64\<close>\<close>
  round32 :: "real \<Rightarrow> real"  \<comment> \<open>rounding to the nearest \<^verbatim>\<open>float32\<close>\<close>
  int_of_unrepresentable :: "float \<Rightarrow> int"
    \<comment> \<open>Go leaves \<^verbatim>\<open>int(x)\<close> implementation-dependent when \<^verbatim>\<open>x\<close> does not fit\<close>

text \<open>\<^verbatim>\<open>float64(n)\<close> and \<^verbatim>\<open>float32(n)\<close> of a Go \<^verbatim>\<open>int\<close>.\<close>

definition float64 :: "fpu \<Rightarrow> int \<Rightarrow> float" where
  "float64 fp n = Finite (round64 fp (of_int n))"

definition float32 :: "fpu \<Rightarrow> int \<Rightarrow> float" where
  "float32 fp n = Finite (round32 fp (of_int n))"

text \<open>\<^verbatim>\<open>x / y\<close>, \<^verbatim>\<open>x * y\<close> and \<^verbatim>\<open>x + y\<close>, rounded by \<open>rnd\<close>.\<close>

fun fdiv :: "(real \<Rightarrow> real) \<Rightarrow> float \<Rightarrow> float \<Rightarrow> float" where
  "fdiv rnd NaN y = NaN"
| "fdiv rnd x NaN = NaN"
| "fdiv rnd (Finite a) (Finite b) =
     (if b = 0 then (if a = 0 then NaN else if 0 < a then PosInf else NegInf)
      else Finite (rnd (a / b)))"
| "fdiv rnd (Finite a) y = Finite 0"
| "fdiv rnd PosInf (Finite b) = (if 0 \<le> b then PosInf else NegInf)"
| "fdiv rnd NegInf (Finite b) = (if 0 \<le> b then NegInf else PosInf)"
| "fdiv rnd x y = NaN"

fun fmul :: "(real \<Rightarrow> real) \<Rightarrow> float \<Rightarrow> float \<Rightarrow> float" where
  "fmul rnd NaN y = NaN"
| "fmul rnd x NaN = NaN"
| "fmul rnd (Finite a) (Finite b) = Finite (rnd (a * b))"
| "fmul rnd (Finite a) PosInf = (if a = 0 then NaN else if 0 < a then PosInf else NegInf)"
| "fmul rnd (Finite a) NegInf = (if a = 0 then NaN else if 0 < a then NegInf else PosInf)"
| "fmul rnd PosInf (Finite b) = (if b = 0 then NaN else if 0 < b then PosInf else NegInf)"
| "fmul rnd NegInf (Finite b) = (if b = 0 then NaN else if 0 < b then NegInf else PosInf)"
| "fmul rnd PosInf PosInf = PosInf"
| "fmul rnd NegInf NegInf = PosInf"
| "fmul rnd x y = NegInf"

fun fadd :: "(real \<Rightarrow> real) \<Rightarrow> float \<Rightarrow> float \<Rightarrow> float" where
  "fadd rnd NaN y = NaN"
| "fadd rnd x NaN = NaN"
| "fadd rnd (Finite a) (Finite b) = Finite (rnd (a + b))"
| "fadd rnd (Finite a) y = y"
| "fadd rnd x (Finite b) = x"
| "fadd rnd PosInf PosInf = PosInf"
| "fadd rnd NegInf NegInf = NegInf"
| "fadd rnd x y = NaN"

text \<open>\<^verbatim>\<open>x > y\<close> and \<^verbatim>\<open>x != y\<close>: every ordered comparison with NaN is false, and NaN differs
  from everything.\<close>

fun fgt :: "float \<Rightarrow> float \<Rightarrow> bool" where
  "fgt NaN y = False"
| "fgt x NaN = False"
| "fgt (Finite a) (Finite b) = (b < a)"
| "fgt PosInf y = (y \<noteq> PosInf)"
| "fgt x NegInf = (x \<noteq> NegInf)"
| "fgt x y = False"

definition fne :: "float \<Rightarrow> float \<Rightarrow> bool" where
  "fne x y = (x = NaN \<or> y = NaN \<or> x \<noteq> y)"

text \<open>\<^verbatim>\<open>math.Min\<close>, \<^verbatim>\<open>math.Max\<close> and \<^verbatim>\<open>math.Floor\<close> with the special cases of their
  documentation: an infinity of the right sign wins, then NaN.\<close>

definition math_Min :: "float \<Rightarrow> float \<Rightarrow> float" where
  "math_Min x y =
     (if x = NegInf \<or> y = NegInf then NegInf
      else if x = NaN \<or> y = NaN then NaN
      else if fgt x y then y else x)"

definition math_Max :: "float \<Rightarrow> float \<Rightarrow> float" where
  "math_Max x y =
     (if x = PosInf \<or> y = PosInf then PosInf
      else if x = NaN \<or> y = NaN then NaN
      else if fgt x y then x else y)"

fun math_Floor :: "float \<Rightarrow> float" where
  "math_Floor (Finite a) = Finite (of_int \<lfloor>a\<rfloor>)"
| "math_Floor x = x"

text \<open>\<^verbatim>\<open>int(x)\<close>: the fraction is discarded (truncation towards zero); the result is
  the platform's when the value does not fit 64 bits.\<close>

definition trunc :: "real \<Rightarrow> int" where
  "trunc a = (if 0 \<le> a then \<lfloor>a\<rfloor> else \<lceil>a\<rceil>)"

definition int_of_float :: "fpu \<Rightarrow> float \<Rightarrow> int" where
  "int_of_float fp x =
     (case x of
        Finite a \<Rightarrow>
          if - (2 ^ 63) \<le> trunc a \<and> trunc a < 2 ^ 63 then trunc a
          else int_of_unrepresentable fp x
      | _ \<Rightarrow> int_of_unrepresentable fp x)"

text \<open>What the theorems on \<^verbatim>\<open>getAngle\<close> need of the rounding to \<^verbatim>\<open>float64\<close>: it is
  monotone and leaves the integers up to \<open>2 ^ 53\<close> as they are. IEEE 754 rounding to
  nearest has both properties.\<close>

definition binary64_rounding :: "(real \<Rightarrow> real) \<Rightarrow> bool" where
  "binary64_rounding rnd \<longleftrightarrow>
     (\<forall>x y. x \<le> y \<longrightarrow> rnd x \<le> rnd y) \<and>
     (\<forall>n::int. \<bar>n\<bar> \<le> 2 ^ 53 \<longrightarrow> rnd (of_int n) = of_int n)"

text \<open>Arithmetic without rounding, for evaluating the model at inputs whose results
  are exact in \<^verbatim>\<open>float64\<close>.\<close>

definition exact_fpu :: fpu where
  "exact_fpu = \<lparr>round64 = (\<lambda>x. x), round32 = (\<lambda>x. x), int_of_unrepresentable = (\<lambda>x. - (2 ^ 63))\<rparr>"

subsection \<open>Types of vips.go\<close>

type_synonym byte = "8 word"

datatype ImageType = UNKNOWN | JPEG | PNG | WEBP

text \<open>\<^verbatim>\<open>Interpolator\<close>, \<^verbatim>\<open>Angle\<close>, \<^verbatim>\<open>Gravity\<close>, \<^verbatim>\<open>Extend\<close> and \<^verbatim>\<open>Direction\<close> are
  named \<^verbatim>\<open>int\<close> types in Go: a value outside the declared constants is well-typed.
  (\<^verbatim>\<open>ImageType\<close> is one as well; the code treats every value other than \<^verbatim>\<open>PNG\<close> and
  \<^verbatim>\<open>WEBP\<close> as it treats \<^verbatim>\<open>UNKNOWN\<close> and \<^verbatim>\<open>JPEG\<close>, which stand for them.)\<close>

type_synonym Interpolator = int

definition BICUBIC :: Interpolator where "BICUBIC = 0"
definition BILINEAR :: Interpolator where "BILINEAR = 1"
definition NOHALO :: Interpolator where "NOHALO = 2"

text \<open>The map \<^verbatim>\<open>interpolations\<close> and its lookup \<^verbatim>\<open>String()\<close>: a missing key gives the
  empty string.\<close>

definition Interpolator_String :: "Interpolator \<Rightarrow> string" where
  "Interpolator_String i =
     (if i = BICUBIC then ''bicubic'' else if i = BILINEAR then ''bilinear''
      else if i = NOHALO then ''nohalo'' else [])"

type_synonym Angle = int

definition D0 :: Angle where "D0 = 0"
definition D90 :: Angle where "D90 = 90"
definition D180 :: Angle where "D180 = 180"
definition D270 :: Angle where "D270 = 270"

type_synonym Gravity = int

definition CENTRE :: Gravity where "CENTRE = 0"
definition NORTH :: Gravity where "NORTH = 1"
definition EAST :: Gravity where "EAST = 2"
definition SOUTH :: Gravity where "SOUTH = 3"
definition WEST :: Gravity where "WEST = 4"
definition CUSTOM :: Gravity where "CUSTOM = 5"

type_synonym Direction = int

text \<open>\<^verbatim>\<open>VIPS_DIRECTION_HORIZONTAL\<close> and \<^verbatim>\<open>VIPS_DIRECTION_VERTICAL\<close> of the libvips
  headers.\<close>

definition HORIZONTAL :: Direction where "HORIZONTAL = 0"
definition VERTICAL :: Direction where "VERTICAL = 1"

record Options =
  Height :: int
  Width :: int
  Crop :: bool
  Enlarge :: bool
  Extend :: int
  Embed :: bool
  Interpolator :: Interpolator
  Gravity :: Gravity
  Quality :: int
  LeftPos :: float
  TopPos :: float
  Savetype :: ImageType
  NoAutoRotate :: bool
  Rotate :: Angle
  Flip :: bool
  Flop :: bool

subsection \<open>sharpCalcCrop\<close>

definition sharpCalcCrop ::
  "fpu \<Rightarrow> int \<Rightarrow> int \<Rightarrow> int \<Rightarrow> int \<Rightarrow> float \<Rightarrow> float \<Rightarrow> Gravity \<Rightarrow> int \<times> int" where
  "sharpCalcCrop fp inWidth inHeight outWidth outHeight customLeftPos customTopPos gravity =
     (if gravity = NORTH then ((inWidth - outWidth + 1) sdiv 2, 0)
      else if gravity = EAST then (inWidth - outWidth, (inHeight - outHeight + 1) sdiv 2)
      else if gravity = SOUTH then ((inWidth - outWidth + 1) sdiv 2, inHeight - outHeight)
      else if gravity = WEST then (0, (inHeight - outHeight + 1) sdiv 2)
      else if gravity = CUSTOM then
        (let customLeft = fmul (round32 fp) (float32 fp inWidth) customLeftPos;
             customTop = fmul (round32 fp) (float32 fp inHeight) customTopPos;
             left' = (if fgt (fadd (round32 fp) customLeft (float32 fp outWidth)) (float32 fp inWidth)
                     then inWidth - outWidth else int_of_float fp customLeft);
             top' = (if fgt (fadd (round32 fp) customTop (float32 fp outHeight)) (float32 fp inHeight)
                    then inHeight - outHeight else int_of_float fp customTop)
         in (left', top'))
      else ((inWidth - outWidth + 1) sdiv 2, (inHeight - outHeight + 1) sdiv 2))"

subsection \<open>getAngle\<close>

definition getAngle :: "fpu \<Rightarrow> Angle \<Rightarrow> Angle" where
  "getAngle fp angle =
     (let divisor = angle smod 90;
          angle = (if divisor \<noteq> 0 then angle - divisor else angle)
      in int_of_float fp (math_Min (float64 fp angle) (Finite 270)))"

subsection \<open>The native library\<close>

text \<open>The fields of \<^verbatim>\<open>VipsImage\<close> that the Go code reads, and a stand-in for the rest.\<close>

record VipsImage =
  Xsize :: int
  Ysize :: int
  pixels :: nat

text \<open>A pointer is \<open>None\<close> when it is \<^verbatim>\<open>nil\<close>. A native call gives its status code
  (0 for success), what it writes through its out-pointer (\<open>None\<close>: it writes nothing
  and the pointer keeps its value) and what it appends to the error buffer.\<close>

record 'a native =
  status :: int
  out :: "'a option"
  message :: string

record engine =
  jpegload_buffer_seq :: "byte list \<Rightarrow> VipsImage native"
  pngload_buffer_seq :: "byte list \<Rightarrow> VipsImage native"
  webpload_buffer_custom :: "byte list \<Rightarrow> VipsImage native"
  jpegload_buffer_shrink :: "byte list \<Rightarrow> int \<Rightarrow> VipsImage native"
  shrink_0 :: "VipsImage option \<Rightarrow> float \<Rightarrow> float \<Rightarrow> VipsImage native"
  affine_interpolator ::
    "VipsImage option \<Rightarrow> float \<Rightarrow> float \<Rightarrow> float \<Rightarrow> float \<Rightarrow> string \<Rightarrow> VipsImage native"
  extract_area_0 :: "VipsImage option \<Rightarrow> int \<Rightarrow> int \<Rightarrow> int \<Rightarrow> int \<Rightarrow> VipsImage native"
  embed_extend :: "VipsImage option \<Rightarrow> int \<Rightarrow> int \<Rightarrow> int \<Rightarrow> int \<Rightarrow> int \<Rightarrow> VipsImage native"
  colourspace_0 :: "VipsImage option \<Rightarrow> VipsImage native"
  jpegsave_custom :: "VipsImage option \<Rightarrow> int \<Rightarrow> int \<Rightarrow> int \<Rightarrow> (byte list) native"
  pngsave_custom :: "VipsImage option \<Rightarrow> int \<Rightarrow> int \<Rightarrow> int \<Rightarrow> (byte list) native"
  webpsave_custom :: "VipsImage option \<Rightarrow> int \<Rightarrow> (byte list) native"
  image_get_typeof :: "VipsImage option \<Rightarrow> string \<Rightarrow> int"
  image_get_string :: "VipsImage option \<Rightarrow> string \<Rightarrow> int \<times> string"
  rot :: "VipsImage option \<Rightarrow> int \<Rightarrow> VipsImage native"
  flip_bridge :: "VipsImage option \<Rightarrow> int \<Rightarrow> VipsImage native"
  autorotate :: "VipsImage option \<Rightarrow> VipsImage native"
  load_from_file :: "string \<Rightarrow> VipsImage native"

text \<open>The calls made to the library are recorded, in order, next to the library's
  error buffer.\<close>

datatype vips_call =
    Jpegload_buffer_seq "byte list"
  | Pngload_buffer_seq "byte list"
  | Webpload_buffer_custom "byte list"
  | Jpegload_buffer_shrink "byte list" int
  | Shrink_0 "VipsImage option" float float
  | Affine_interpolator "VipsImage option" float float float float string
  | Extract_area_0 "VipsImage option" int int int int
  | Embed_extend "VipsImage option" int int int int int
  | Colourspace_0 "VipsImage option"
  | Jpegsave_custom "VipsImage option" int int int
  | Pngsave_custom "VipsImage option" int int int
  | Webpsave_custom "VipsImage option" int
  | Rot "VipsImage option" int
  | Flip_bridge "VipsImage option" int
  | Autorotate "VipsImage option"
  | Load_from_file string
  | Error_clear
  | Thread_shutdown

record world =
  calls :: "vips_call list"
  error_buffer :: string

definition invoke :: "vips_call \<Rightarrow> 'a native \<Rightarrow> world \<Rightarrow> world" where
  "invoke c r w = w\<lparr>calls := calls w @ [c], error_buffer := error_buffer w @ message r\<rparr>"

definition vips_error_clear :: "world \<Rightarrow> world" where
  "vips_error_clear w = w\<lparr>calls := calls w @ [Error_clear], error_buffer := []\<rparr>"

definition vips_thread_shutdown :: "world \<Rightarrow> world" where
  "vips_thread_shutdown w = w\<lparr>calls := calls w @ [Thread_shutdown]\<rparr>"

text \<open>\<^verbatim>\<open>C.int(n)\<close>: a Go \<^verbatim>\<open>int\<close> keeps its low 32 bits.\<close>

definition C_int :: "int \<Rightarrow> int" where
  "C_int n = signed_take_bit 31 n"

subsection \<open>Results of the Go functions\<close>

datatype panic = SliceBoundsOutOfRange | IndexOutOfRange | NilPointerDereference

text \<open>A function that returns \<^verbatim>\<open>([]byte, error)\<close> returns a buffer or \<^verbatim>\<open>nil\<close> and an
  error (the text given to \<^verbatim>\<open>errors.New\<close>) or \<^verbatim>\<open>nil\<close>, or it panics.\<close>

datatype ('a, 'e) result = Panics panic | Returns 'a 'e

type_synonym error = "string option"

text \<open>\<^verbatim>\<open>resizeError\<close> and \<^verbatim>\<open>catchVipsError\<close> read the error buffer and clear it.\<close>

definition resizeError :: "world \<Rightarrow> error \<times> world" where
  "resizeError w = (let s = error_buffer w in (Some s, vips_error_clear w))"

definition catchVipsError :: "world \<Rightarrow> error \<times> world" where
  "catchVipsError w =
     (let s = error_buffer w in (Some s, vips_thread_shutdown (vips_error_clear w)))"

subsection \<open>The orientation resolver\<close>

text \<open>\<^verbatim>\<open>atoi\<close> of the C library, on a string without its terminator: white space, a sign,
  then digits up to the first character that is not one.\<close>

definition isspace :: "char \<Rightarrow> bool" where
  "isspace c \<longleftrightarrow> c = CHR '' '' \<or> (9::nat) \<le> of_char c \<and> of_char c \<le> (13::nat)"

definition isdigit :: "char \<Rightarrow> bool" where
  "isdigit c \<longleftrightarrow> (48::nat) \<le> of_char c \<and> of_char c \<le> (57::nat)"

fun digits :: "int \<Rightarrow> string \<Rightarrow> int" where
  "digits acc [] = acc"
| "digits acc (c # cs) = (if isdigit c then digits (10 * acc + (of_char c - 48)) cs else acc)"

definition atoi :: "string \<Rightarrow> int" where
  "atoi s =
     (case dropWhile isspace s of
        [] \<Rightarrow> 0
      | c # cs \<Rightarrow>
          if c = CHR ''-'' then - digits 0 cs
          else if c = CHR ''+'' then digits 0 cs
          else digits 0 (c # cs))"

text \<open>\<^verbatim>\<open>vips_exif_orientation\<close> of the bridge, and its Go wrapper.\<close>

definition vips_exif_orientation :: "engine \<Rightarrow> VipsImage option \<Rightarrow> int" where
  "vips_exif_orientation eng img =
     (if image_get_typeof eng img ''exif-ifd0-Orientation'' \<noteq> 0 \<and>
         fst (image_get_string eng img ''exif-ifd0-Orientation'') = 0
      then atoi (snd (image_get_string eng img ''exif-ifd0-Orientation''))
      else 0)"

definition vipsExifOrientation :: "engine \<Rightarrow> VipsImage option \<Rightarrow> int" where
  "vipsExifOrientation eng img = vips_exif_orientation eng img"

definition calculateRotationAndFlip :: "engine \<Rightarrow> VipsImage option \<Rightarrow> Angle \<Rightarrow> Angle \<times> bool" where
  "calculateRotationAndFlip eng img angle =
     (if angle > 0 then (D0, False)
      else
        (let v = vipsExifOrientation eng img in
         if v = 6 then (D90, False)
         else if v = 3 then (D180, False)
         else if v = 8 then (D270, False)
         else if v = 2 then (D0, True)
         else if v = 7 then (D90, True)
         else if v = 4 then (D180, True)
         else if v = 5 then (D270, True)
         else (D0, False)))"

text \<open>The table of the specification (section 4.4), \<open>resolveOrientation\<close>, written from
  the specification's words to be compared with the code.\<close>

definition resolveOrientation :: "int \<Rightarrow> int \<times> bool" where
  "resolveOrientation v =
     (if v = 1 then (0, False)
      else if v = 2 then (0, True)
      else if v = 3 then (180, False)
      else if v = 4 then (180, True)
      else if v = 5 then (270, True)
      else if v = 6 then (90, False)
      else if v = 7 then (90, True)
      else if v = 8 then (270, False)
      else (0, False))"

subsection \<open>Rotation and flip\<close>

text \<open>\<^verbatim>\<open>VipsAngle\<close> of the libvips headers, and \<^verbatim>\<open>vips_rotate\<close> of the bridge, which maps
  degrees to it.\<close>

definition VIPS_ANGLE_D0 :: int where "VIPS_ANGLE_D0 = 0"
definition VIPS_ANGLE_D90 :: int where "VIPS_ANGLE_D90 = 1"
definition VIPS_ANGLE_D180 :: int where "VIPS_ANGLE_D180 = 2"
definition VIPS_ANGLE_D270 :: int where "VIPS_ANGLE_D270 = 3"

definition vips_rotate :: "engine \<Rightarrow> world \<Rightarrow> VipsImage option \<Rightarrow> int \<Rightarrow> VipsImage native \<times> world" where
  "vips_rotate eng w img angle =
     (let rotate = (if angle = 90 then VIPS_ANGLE_D90
                    else if angle = 180 then VIPS_ANGLE_D180
                    else if angle = 270 then VIPS_ANGLE_D270
                    else VIPS_ANGLE_D0);
          r = rot eng img rotate
      in (r, invoke (Rot img rotate) r w))"

definition vipsRotate ::
  "engine \<Rightarrow> world \<Rightarrow> VipsImage option \<Rightarrow> Angle \<Rightarrow> (VipsImage option \<times> error) \<times> world" where
  "vipsRotate eng w img angle =
     (let (r, w) = vips_rotate eng w img (C_int angle) in
      if status r \<noteq> 0 then (let (e, w) = catchVipsError w in ((None, e), w))
      else ((out r, None), w))"

definition vipsFlip ::
  "engine \<Rightarrow> world \<Rightarrow> VipsImage option \<Rightarrow> Direction \<Rightarrow> (VipsImage option \<times> error) \<times> world" where
  "vipsFlip eng w img direction =
     (let r = flip_bridge eng img (C_int direction);
          w = invoke (Flip_bridge img (C_int direction)) r w
      in if status r \<noteq> 0 then (let (e, w) = catchVipsError w in ((None, e), w))
         else ((out r, None), w))"

definition rotateAndFlipImage ::
  "fpu \<Rightarrow> engine \<Rightarrow> world \<Rightarrow> VipsImage option \<Rightarrow> Options \<Rightarrow> (VipsImage option \<times> error) \<times> world" where
  "rotateAndFlipImage fp eng w img opt =
     (let opt =
            (if NoAutoRotate opt = False then
               (let (rotation, flip) = calculateRotationAndFlip eng img (Rotate opt);
                    opt = (if flip then opt\<lparr>Flip := flip\<rparr> else opt)
                in if rotation > D0 \<and> Rotate opt = 0 then opt\<lparr>Rotate := rotation\<rparr> else opt)
             else opt);
          ((img, err), w) =
            (if Rotate opt > 0 then vipsRotate eng w img (getAngle fp (Rotate opt))
             else ((img, None), w));
          direction =
            (if Flip opt then HORIZONTAL else if Flop opt then VERTICAL else - 1)
      in if direction \<noteq> - 1 then vipsFlip eng w img direction else ((img, err), w))"

subsection \<open>AutoRotate\<close>

text \<open>The \<^verbatim>\<open>switch o.Savetype\<close> that ends both \<^verbatim>\<open>Resize\<close> and \<^verbatim>\<open>AutoRotate\<close>, with
  \<^verbatim>\<open>C.GoBytes\<close>: the status of the save is not looked at, and a pointer that was not
  written gives the empty buffer.\<close>

definition save_native :: "engine \<Rightarrow> VipsImage option \<Rightarrow> Options \<Rightarrow> (byte list) native" where
  "save_native eng img opt =
     (if Savetype opt = WEBP then webpsave_custom eng img (C_int (Quality opt))
      else if Savetype opt = PNG then pngsave_custom eng img 1 (C_int (Quality opt)) 0
      else jpegsave_custom eng img 1 (C_int (Quality opt)) 0)"

definition save_call :: "VipsImage option \<Rightarrow> Options \<Rightarrow> vips_call" where
  "save_call img opt =
     (if Savetype opt = WEBP then Webpsave_custom img (C_int (Quality opt))
      else if Savetype opt = PNG then Pngsave_custom img 1 (C_int (Quality opt)) 0
      else Jpegsave_custom img 1 (C_int (Quality opt)) 0)"

definition GoBytes :: "(byte list) native \<Rightarrow> byte list" where
  "GoBytes r = (case out r of None \<Rightarrow> [] | Some b \<Rightarrow> b)"

definition save :: "engine \<Rightarrow> world \<Rightarrow> VipsImage option \<Rightarrow> Options \<Rightarrow> byte list \<times> world" where
  "save eng w img opt =
     (let r = save_native eng img opt in (GoBytes r, invoke (save_call img opt) r w))"

text \<open>The deferred function of \<^verbatim>\<open>Resize\<close> and \<^verbatim>\<open>AutoRotate\<close>, run at every exit that
  follows the \<^verbatim>\<open>defer\<close> statement.\<close>

definition cleanup :: "world \<Rightarrow> world" where
  "cleanup w = vips_error_clear (vips_thread_shutdown w)"

definition AutoRotate ::
  "engine \<Rightarrow> world \<Rightarrow> string \<Rightarrow> Options \<Rightarrow> (byte list option, error) result \<times> world" where
  "AutoRotate eng w file opt =
     (let l = load_from_file eng file;
          img = out l;
          w = invoke (Load_from_file file) l w
      in if img = None then
           (let (e, w) = catchVipsError w in (Returns None e, cleanup w))
         else
           (let (rotate, flip) = calculateRotationAndFlip eng img 0 in
            if rotate = 0 \<and> \<not> flip then (Returns None None, cleanup w)
            else
              (let r = autorotate eng img;
                   tmpImage = out r;
                   w = invoke (Autorotate img) r w
               in if status r \<noteq> 0 then
                    (let (e, w) = catchVipsError w in (Returns None e, cleanup w))
                  else
                    (let opt = (if Quality opt = 0 then opt\<lparr>Quality := 100\<rparr> else opt);
                         (buf, w) = save eng w tmpImage opt
                     in (Returns (Some buf) None, cleanup w)))))"

subsection \<open>Resize\<close>

text \<open>A slice is its backing array from the slice's first element on (its length is the
  slice's capacity) and the slice's length. A slice expression \<^verbatim>\<open>b[lo:hi]\<close> of a slice
  panics unless \<open>lo \<le> hi \<le> cap\<close>; an index expression \<^verbatim>\<open>b[i]\<close> panics unless
  \<open>i < len\<close>.\<close>

record slice =
  backing :: "byte list"
  len :: nat

definition cap :: "slice \<Rightarrow> nat" where
  "cap b = length (backing b)"

definition elems :: "slice \<Rightarrow> byte list" where
  "elems b = take (len b) (backing b)"

definition reslice :: "slice \<Rightarrow> nat \<Rightarrow> nat \<Rightarrow> panic + byte list" where
  "reslice b lo hi =
     (if lo \<le> hi \<and> hi \<le> cap b then Inr (take (hi - lo) (drop lo (backing b)))
      else Inl SliceBoundsOutOfRange)"

text \<open>\<^verbatim>\<open>&buf[0]\<close> with \<^verbatim>\<open>len(buf)\<close>: the bytes handed to a loader.\<close>

definition from_first :: "slice \<Rightarrow> panic + byte list" where
  "from_first b = (if 0 < len b then Inr (elems b) else Inl IndexOutOfRange)"

definition MARKER_JPEG :: "byte list" where "MARKER_JPEG = [0xff, 0xd8]"
definition MARKER_PNG :: "byte list" where "MARKER_PNG = [0x89, 0x50]"
definition MARKER_WEBP :: "byte list" where "MARKER_WEBP = [0x57, 0x45, 0x42, 0x50]"
definition MARKER_RIFF :: "byte list" where "MARKER_RIFF = [0x52, 0x49, 0x46, 0x46]"

text \<open>The parameters and local variables of \<^verbatim>\<open>Resize\<close> (\<open>opts\<close> is the parameter \<^verbatim>\<open>o\<close>,
  \<open>img\<close> the variable \<^verbatim>\<open>image\<close>, \<open>imgtype\<close> the variable \<^verbatim>\<open>typ\<close>), with the state of the library.\<close>

record frame =
  buf :: slice
  opts :: Options
  imgtype :: ImageType
  img :: "VipsImage option"
  tmpImage :: "VipsImage option"
  inWidth :: int
  inHeight :: int
  factor :: float
  shrink :: int
  residual :: float
  shrinkOnLoad :: int
  world :: world

text \<open>A statement either leaves the function, by \<^verbatim>\<open>return\<close> or by a panic, or goes on
  to the next one.\<close>

type_synonym exit = "(byte list option, error) result \<times> frame"

type_synonym stage = "frame \<Rightarrow> exit + frame"

fun run :: "stage list \<Rightarrow> stage" where
  "run [] s = Inr s"
| "run (f # fs) s = (case f s of Inl x \<Rightarrow> Inl x | Inr s' \<Rightarrow> run fs s')"

text \<open>An out-pointer after a native call, and the call recorded in the frame.\<close>

definition written :: "'a native \<Rightarrow> 'a option \<Rightarrow> 'a option" where
  "written r old = (case out r of None \<Rightarrow> old | Some x \<Rightarrow> Some x)"

definition called :: "vips_call \<Rightarrow> 'a native \<Rightarrow> frame \<Rightarrow> frame" where
  "called c r s = s\<lparr>world := invoke c r (world s)\<rparr>"

text \<open>\<^verbatim>\<open>return nil, resizeError()\<close>.\<close>

definition return_resizeError :: "frame \<Rightarrow> exit" where
  "return_resizeError s =
     (let (e, w) = resizeError (world s) in (Returns None e, s\<lparr>world := w\<rparr>))"

text \<open>Lines 139 to 150: detect the file type.\<close>

definition detect :: stage where
  "detect s =
     (case reslice (buf s) 0 2 of Inl p \<Rightarrow> Inl (Panics p, s) | Inr a \<Rightarrow>
      if a = MARKER_JPEG then Inr (s\<lparr>imgtype := JPEG\<rparr>) else
     (case reslice (buf s) 0 2 of Inl p \<Rightarrow> Inl (Panics p, s) | Inr a \<Rightarrow>
      if a = MARKER_PNG then Inr (s\<lparr>imgtype := PNG\<rparr>) else
     (case reslice (buf s) 0 4 of Inl p \<Rightarrow> Inl (Panics p, s) | Inr a \<Rightarrow>
      if a \<noteq> MARKER_RIFF then Inl (Returns None (Some ''unknown image format''), s) else
     (case reslice (buf s) 8 12 of Inl p \<Rightarrow> Inl (Panics p, s) | Inr a \<Rightarrow>
      if a = MARKER_WEBP then Inr (s\<lparr>imgtype := WEBP\<rparr>)
      else Inl (Returns None (Some ''unknown image format''), s)))))"

text \<open>Lines 155 to 163: feed the image. The status of the load is dropped.\<close>

definition feed :: "engine \<Rightarrow> stage" where
  "feed eng s =
     (if imgtype s = UNKNOWN then Inr s
      else
        (case from_first (buf s) of
           Inl p \<Rightarrow> Inl (Panics p, s)
         | Inr bytes \<Rightarrow>
             (case imgtype s of
                JPEG \<Rightarrow>
                  (let r = jpegload_buffer_seq eng bytes
                   in Inr (called (Jpegload_buffer_seq bytes) r (s\<lparr>img := written r (img s)\<rparr>)))
              | PNG \<Rightarrow>
                  (let r = pngload_buffer_seq eng bytes
                   in Inr (called (Pngload_buffer_seq bytes) r (s\<lparr>img := written r (img s)\<rparr>)))
              | WEBP \<Rightarrow>
                  (let r = webpload_buffer_custom eng bytes
                   in Inr (called (Webpload_buffer_custom bytes) r (s\<lparr>img := written r (img s)\<rparr>)))
              | UNKNOWN \<Rightarrow> Inr s)))"

text \<open>Lines 171 to 174: defaults.\<close>

definition defaults :: stage where
  "defaults s =
     Inr (if Quality (opts s) = 0 then s\<lparr>opts := (opts s)\<lparr>Quality := 100\<rparr>\<rparr> else s)"

text \<open>Lines 176 to 178: get WxH. Reading a field through a \<^verbatim>\<open>nil\<close> pointer panics.\<close>

definition get_WxH :: stage where
  "get_WxH s =
     (case img s of
        None \<Rightarrow> Inl (Panics NilPointerDereference, s)
      | Some i \<Rightarrow> Inr (s\<lparr>inWidth := Xsize i, inHeight := Ysize i\<rparr>))"

text \<open>Lines 180 to 207: image calculations.\<close>

definition image_calculations :: "fpu \<Rightarrow> stage" where
  "image_calculations fp s =
     (let s = s\<lparr>factor := Finite 0\<rparr>; opt = opts s in
      if Width opt > 0 \<and> Height opt > 0 then
        (let xf = fdiv (round64 fp) (float64 fp (inWidth s)) (float64 fp (Width opt));
             yf = fdiv (round64 fp) (float64 fp (inHeight s)) (float64 fp (Height opt))
         in Inr (s\<lparr>factor := (if Crop opt then math_Min xf yf else math_Max xf yf)\<rparr>))
      else if Width opt > 0 then
        (let f = fdiv (round64 fp) (float64 fp (inWidth s)) (float64 fp (Width opt))
         in Inr (s\<lparr>factor := f,
                   opts := opt\<lparr>Height := int_of_float fp
                     (math_Floor (fdiv (round64 fp) (float64 fp (inHeight s)) f))\<rparr>\<rparr>))
      else if Height opt > 0 then
        (let f = fdiv (round64 fp) (float64 fp (inHeight s)) (float64 fp (Height opt))
         in Inr (s\<lparr>factor := f,
                   opts := opt\<lparr>Width := int_of_float fp
                     (math_Floor (fdiv (round64 fp) (float64 fp (inWidth s)) f))\<rparr>\<rparr>))
      else
        Inr (s\<lparr>factor := Finite 1, opts := opt\<lparr>Width := inWidth s, Height := inHeight s\<rparr>\<rparr>))"

text \<open>Lines 211 to 218: the integral shrink and the residual.\<close>

definition shrink_and_residual :: "fpu \<Rightarrow> stage" where
  "shrink_and_residual fp s =
     (let k = int_of_float fp (math_Floor (factor s));
          k = (if k < 1 then 1 else k)
      in Inr (s\<lparr>shrink := k, residual := fdiv (round64 fp) (float64 fp k) (factor s)\<rparr>))"

text \<open>Lines 220 to 229: do not enlarge.\<close>

definition do_not_enlarge :: stage where
  "do_not_enlarge s =
     (if \<not> Enlarge (opts s) then
        (if inWidth s < Width (opts s) \<and> inHeight s < Height (opts s) then
           Inr (s\<lparr>factor := Finite 1, shrink := 1, residual := Finite 0,
                  opts := (opts s)\<lparr>Width := inWidth s, Height := inHeight s\<rparr>\<rparr>)
         else Inr s)
      else Inr s)"

text \<open>Lines 233 to 247: try to use libjpeg shrink-on-load.\<close>

definition shrink_on_load :: "fpu \<Rightarrow> stage" where
  "shrink_on_load fp s =
     (let s = s\<lparr>shrinkOnLoad := 1\<rparr> in
      if imgtype s = JPEG \<and> shrink s \<ge> 2 then
        (if shrink s \<ge> 8 then
           Inr (s\<lparr>factor := fdiv (round64 fp) (factor s) (Finite 8), shrinkOnLoad := 8\<rparr>)
         else if shrink s \<ge> 4 then
           Inr (s\<lparr>factor := fdiv (round64 fp) (factor s) (Finite 4), shrinkOnLoad := 4\<rparr>)
         else if shrink s \<ge> 2 then
           Inr (s\<lparr>factor := fdiv (round64 fp) (factor s) (Finite 2), shrinkOnLoad := 2\<rparr>)
         else Inr s)
      else Inr s)"

text \<open>Lines 249 to 262: reload the input using shrink-on-load.\<close>

definition reload :: "fpu \<Rightarrow> engine \<Rightarrow> stage" where
  "reload fp eng s =
     (if shrinkOnLoad s > 1 then
        (let f = math_Max (factor s) (Finite 1);
             k = int_of_float fp (math_Floor f);
             s = s\<lparr>factor := f, shrink := k, residual := fdiv (round64 fp) (float64 fp k) f\<rparr>
         in case from_first (buf s) of
              Inl p \<Rightarrow> Inl (Panics p, s)
            | Inr bytes \<Rightarrow>
                (let r = jpegload_buffer_shrink eng bytes (C_int (shrinkOnLoad s));
                     s = called (Jpegload_buffer_shrink bytes (C_int (shrinkOnLoad s))) r
                           (s\<lparr>tmpImage := written r (tmpImage s)\<rparr>);
                     s = s\<lparr>img := tmpImage s\<rparr>
                 in if status r \<noteq> 0 then Inl (return_resizeError s) else Inr s))
      else Inr s)"

text \<open>Lines 264 to 285: the integral reduction, and the residual from the size of the
  shrunk image.\<close>

definition shrink_image :: "fpu \<Rightarrow> engine \<Rightarrow> stage" where
  "shrink_image fp eng s =
     (if shrink s > 1 then
        (let r = shrink_0 eng (img s) (float64 fp (shrink s)) (float64 fp (shrink s));
             s = called (Shrink_0 (img s) (float64 fp (shrink s)) (float64 fp (shrink s))) r
                   (s\<lparr>tmpImage := written r (tmpImage s)\<rparr>);
             s = s\<lparr>img := tmpImage s\<rparr>
         in if status r \<noteq> 0 then Inl (return_resizeError s)
            else
              (case img s of
                 None \<Rightarrow> Inl (Panics NilPointerDereference, s)
               | Some i \<Rightarrow>
                   (let shrunkWidth = Xsize i;
                        shrunkHeight = Ysize i;
                        residualx = fdiv (round64 fp) (float64 fp (Width (opts s)))
                                      (float64 fp shrunkWidth);
                        residualy = fdiv (round64 fp) (float64 fp (Height (opts s)))
                                      (float64 fp shrunkHeight)
                    in Inr (s\<lparr>residual := (if Crop (opts s) then math_Max residualx residualy
                                            else math_Min residualx residualy)\<rparr>))))
      else Inr s)"

text \<open>Lines 287 to 307: the affine transformation with the remaining float part.\<close>

definition affine :: "engine \<Rightarrow> stage" where
  "affine eng s =
     (if fne (residual s) (Finite 0) then
        (let is = Interpolator_String (Interpolator (opts s));
             r = affine_interpolator eng (img s) (residual s) (Finite 0) (Finite 0) (residual s) is;
             s = called (Affine_interpolator (img s) (residual s) (Finite 0) (Finite 0)
                           (residual s) is) r
                   (s\<lparr>tmpImage := written r (tmpImage s)\<rparr>);
             s = s\<lparr>img := tmpImage s\<rparr>
         in if status r \<noteq> 0 then Inl (return_resizeError s) else Inr s)
      else Inr s)"

text \<open>Lines 309 to 339: crop or embed.\<close>

definition crop_embed :: "fpu \<Rightarrow> engine \<Rightarrow> stage" where
  "crop_embed fp eng s =
     (case img s of
        None \<Rightarrow> Inl (Panics NilPointerDereference, s)
      | Some i \<Rightarrow>
          (let affinedWidth = Xsize i; affinedHeight = Ysize i; opt = opts s in
           if affinedWidth \<noteq> Width opt \<or> affinedHeight \<noteq> Height opt then
             (if Crop opt then
                (let (left', top') = sharpCalcCrop fp affinedWidth affinedHeight (Width opt)
                                     (Height opt) (LeftPos opt) (TopPos opt) (Gravity opt);
                     opt = opt\<lparr>Width := int_of_float fp
                                 (math_Min (float64 fp affinedWidth) (float64 fp (Width opt)))\<rparr>;
                     opt = opt\<lparr>Height := int_of_float fp
                                 (math_Min (float64 fp affinedHeight) (float64 fp (Height opt)))\<rparr>;
                     s = s\<lparr>opts := opt\<rparr>;
                     r = extract_area_0 eng (img s) (C_int left') (C_int top')
                           (C_int (Width opt)) (C_int (Height opt));
                     s = called (Extract_area_0 (img s) (C_int left') (C_int top')
                                   (C_int (Width opt)) (C_int (Height opt))) r
                           (s\<lparr>tmpImage := written r (tmpImage s)\<rparr>);
                     s = s\<lparr>img := tmpImage s\<rparr>
                 in if status r \<noteq> 0 then Inl (return_resizeError s) else Inr s)
              else if Embed opt then
                (let left' = (Width opt - affinedWidth) sdiv 2;
                     top' = (Height opt - affinedHeight) sdiv 2;
                     r = embed_extend eng (img s) (C_int left') (C_int top')
                           (C_int (Width opt)) (C_int (Height opt)) (C_int (Extend opt));
                     s = called (Embed_extend (img s) (C_int left') (C_int top')
                                   (C_int (Width opt)) (C_int (Height opt)) (C_int (Extend opt))) r
                           (s\<lparr>tmpImage := written r (tmpImage s)\<rparr>);
                     s = s\<lparr>img := tmpImage s\<rparr>
                 in if status r \<noteq> 0 then Inl (return_resizeError s) else Inr s)
              else Inr s)
           else Inr s))"

text \<open>Lines 341 to 365: the conversion to sRGB, whose status is dropped, and the save.\<close>

definition convert_and_save :: "engine \<Rightarrow> frame \<Rightarrow> exit" where
  "convert_and_save eng s =
     (let r = colourspace_0 eng (img s);
          s = called (Colourspace_0 (img s)) r (s\<lparr>tmpImage := written r (tmpImage s)\<rparr>);
          s = s\<lparr>img := tmpImage s\<rparr>;
          (b, w) = save eng (world s) (img s) (opts s)
      in (Returns (Some b) None, s\<lparr>world := w\<rparr>))"

text \<open>The function, statement after statement. The deferred clean-up is registered at
  line 166, after the image was fed.\<close>

definition enter :: "world \<Rightarrow> slice \<Rightarrow> Options \<Rightarrow> frame" where
  "enter w b opt =
     \<lparr>buf = b, opts = opt, imgtype = UNKNOWN, img = None, tmpImage = None,
      inWidth = 0, inHeight = 0, factor = Finite 0, shrink = 0, residual = Finite 0,
      shrinkOnLoad = 0, world = w\<rparr>"

definition deferred :: "exit \<Rightarrow> exit" where
  "deferred x = (fst x, (snd x)\<lparr>world := cleanup (world (snd x))\<rparr>)"

definition plan :: "fpu \<Rightarrow> stage list" where
  "plan fp =
     [defaults, get_WxH, image_calculations fp, shrink_and_residual fp, do_not_enlarge,
      shrink_on_load fp]"

definition transform :: "fpu \<Rightarrow> engine \<Rightarrow> stage list" where
  "transform fp eng = [reload fp eng, shrink_image fp eng, affine eng, crop_embed fp eng]"

definition Resize_frame :: "fpu \<Rightarrow> engine \<Rightarrow> world \<Rightarrow> slice \<Rightarrow> Options \<Rightarrow> exit" where
  "Resize_frame fp eng w b opt =
     (case run [detect, feed eng] (enter w b opt) of
        Inl x \<Rightarrow> x
      | Inr s \<Rightarrow>
          deferred
            (case run (plan fp @ transform fp eng) s of
               Inl x \<Rightarrow> x
             | Inr s \<Rightarrow> convert_and_save eng s))"

definition Resize ::
  "fpu \<Rightarrow> engine \<Rightarrow> world \<Rightarrow> slice \<Rightarrow> Options \<Rightarrow> (byte list option, error) result \<times> world" where
  "Resize fp eng w b opt = (let (r, s) = Resize_frame fp eng w b opt in (r, world s))"

subsection \<open>A call of Resize\<close>

text \<open>Go passes arguments by value. A call \<^verbatim>\<open>Resize(b, v)\<close>, where \<^verbatim>\<open>v\<close> is a variable of
  the caller, makes a new variable, the parameter \<^verbatim>\<open>o\<close>, and copies \<^verbatim>\<open>v\<close> into it;
  \<^verbatim>\<open>Options\<close> has no pointer, slice or map field, so the copy shares nothing with \<^verbatim>\<open>v\<close>.
  The variables that hold an \<^verbatim>\<open>Options\<close> are the cells of a store: the caller's are
  there at the call, the parameter is allocated after them, and the function body
  assigns to the parameter only. The store after the call keeps the parameter's last
  value.\<close>

type_synonym store = "Options list"

definition call_Resize ::
  "fpu \<Rightarrow> engine \<Rightarrow> world \<Rightarrow> store \<Rightarrow> slice \<Rightarrow> nat \<Rightarrow>
     (byte list option, error) result \<times> world \<times> store" where
  "call_Resize fp eng w st b v =
     (let p = length st;
          st = st @ [st ! v];
          (r, s) = Resize_frame fp eng w b (st ! p)
      in (r, world s, st[p := opts s]))"

subsection \<open>An engine to evaluate the model with\<close>

definition ok :: "'a \<Rightarrow> 'a native" where
  "ok x = \<lparr>status = 0, out = Some x, message = []\<rparr>"

definition failed :: "string \<Rightarrow> 'a native" where
  "failed m = \<lparr>status = - 1, out = None, message = m\<rparr>"

text \<open>Every call succeeds. A load gives the image \<open>i\<close>, a shrink or a shrink-on-load
  divides its size, the other operations keep the image they are given, a save gives three
  bytes, and the EXIF orientation field holds \<open>orientation\<close>.\<close>

definition scaled :: "int \<Rightarrow> VipsImage option \<Rightarrow> VipsImage native" where
  "scaled k p =
     (case p of
        None \<Rightarrow> failed ''no image''
      | Some i \<Rightarrow> ok (i\<lparr>Xsize := Xsize i div k, Ysize := Ysize i div k\<rparr>))"

definition demo_engine :: "VipsImage \<Rightarrow> string \<Rightarrow> engine" where
  "demo_engine i orientation =
     \<lparr>jpegload_buffer_seq = (\<lambda>b. ok i),
      pngload_buffer_seq = (\<lambda>b. ok i),
      webpload_buffer_custom = (\<lambda>b. ok i),
      jpegload_buffer_shrink = (\<lambda>b k. scaled k (Some i)),
      shrink_0 = (\<lambda>p x y. case x of Finite a \<Rightarrow> scaled \<lfloor>a\<rfloor> p | _ \<Rightarrow> failed ''shrink''),
      affine_interpolator = (\<lambda>p a b c d is. scaled 1 p),
      extract_area_0 = (\<lambda>p l t w h. scaled 1 p),
      embed_extend = (\<lambda>p l t w h e. scaled 1 p),
      colourspace_0 = (\<lambda>p. scaled 1 p),
      jpegsave_custom = (\<lambda>p s q n. ok [0xff, 0xd8, 0xff]),
      pngsave_custom = (\<lambda>p s q n. ok [0x89, 0x50, 0x4e]),
      webpsave_custom = (\<lambda>p q. ok [0x52, 0x49, 0x46]),
      image_get_typeof = (\<lambda>p n. 1),
      image_get_string = (\<lambda>p n. (0, orientation)),
      rot = (\<lambda>p a. scaled 1 p),
      flip_bridge = (\<lambda>p d. scaled 1 p),
      autorotate = (\<lambda>p. scaled 1 p),
      load_from_file = (\<lambda>f. ok i)\<rparr>"

text \<open>Inputs to evaluate the model at: the zero value of \<^verbatim>\<open>Options\<close>, a library that
  was not called yet, two images, and buffers of twelve bytes whose capacity is their
  length.\<close>

definition Options_zero :: Options where
  "Options_zero =
     \<lparr>Height = 0, Width = 0, Crop = False, Enlarge = False, Extend = 0, Embed = False,
      Interpolator = 0, Gravity = 0, Quality = 0, LeftPos = Finite 0, TopPos = Finite 0,
      Savetype = UNKNOWN, NoAutoRotate = False, Rotate = 0, Flip = False, Flop = False\<rparr>"

definition world_zero :: world where
  "world_zero = \<lparr>calls = [], error_buffer = []\<rparr>"

definition image_100x100 :: VipsImage where
  "image_100x100 = \<lparr>Xsize = 100, Ysize = 100, pixels = 0\<rparr>"

definition image_4000x3000 :: VipsImage where
  "image_4000x3000 = \<lparr>Xsize = 4000, Ysize = 3000, pixels = 1\<rparr>"

definition png_bytes :: "byte list" where
  "png_bytes = [0x89, 0x50, 0x4e, 0x47, 0x0d, 0x0a, 0x1a, 0x0a, 0, 0, 0, 0x0d]"

definition jpeg_bytes :: "byte list" where
  "jpeg_bytes = [0xff, 0xd8, 0xff, 0xe0, 0, 0x10, 0x4a, 0x46, 0x49, 0x46, 0, 1]"

definition slice_of :: "byte list \<Rightarrow> slice" where
  "slice_of bs = \<lparr>backing = bs, len = length bs\<rparr>"

text \<open>The frame in which a sequence of statements ends, whether it leaves the function
  or not.\<close>

definition last_frame :: "exit + frame \<Rightarrow> frame" where
  "last_frame x = (case x of Inl (r, s) \<Rightarrow> s | Inr s \<Rightarrow> s)"

section \<open>Properties\<close>

subsection \<open>Auxiliary facts\<close>

lemma sdiv_2_nonneg: "0 \<le> a \<Longrightarrow> a sdiv 2 = a div (2::int)"
  by (simp add: signed_divide_int_def sgn_if)

lemma trunc_of_int: "trunc (of_int n) = n"
  by (simp add: trunc_def)

lemma run_append:
  "run (fs @ gs) s = (case run fs s of Inl x \<Rightarrow> Inl x | Inr s' \<Rightarrow> run gs s')"
  by (induction fs arbitrary: s) (auto split: sum.splits)

lemma binary64_rounding_exact: "binary64_rounding (round64 exact_fpu)"
  by (simp add: binary64_rounding_def exact_fpu_def)

lemma C_int_small: "C_int 2 = 2" "C_int 4 = 4" "C_int 8 = 8" "C_int 90 = 90" "C_int 100 = 100"
  by (simp_all add: C_int_def)

text \<open>The statements up to line 163 set \<^verbatim>\<open>typ\<close> and \<^verbatim>\<open>image\<close> and nothing else.\<close>

lemma detect_frame:
  "detect s = Inr s' \<Longrightarrow> \<exists>t. s' = s\<lparr>imgtype := t\<rparr> \<and> t \<noteq> UNKNOWN"
  by (auto simp: detect_def split: sum.splits if_splits)

lemma feed_frame:
  "feed eng s = Inr s' \<Longrightarrow>
     opts s' = opts s \<and> buf s' = buf s \<and> tmpImage s' = tmpImage s \<and> imgtype s' = imgtype s"
  by (auto simp: feed_def called_def Let_def split: sum.splits if_splits ImageType.splits)

lemma fed_frame:
  assumes "run [detect, feed eng] (enter w b opt) = Inr s0"
  shows "opts s0 = opt \<and> buf s0 = b \<and> tmpImage s0 = None"
proof -
  from assms obtain s where d: "detect (enter w b opt) = Inr s" and f: "feed eng s = Inr s0"
    by (auto split: sum.splits)
  from detect_frame [OF d] obtain t where "s = (enter w b opt)\<lparr>imgtype := t\<rparr>" by blast
  then have "opts s = opt \<and> buf s = b \<and> tmpImage s = None" by (simp add: enter_def)
  with feed_frame [OF f] show ?thesis by simp
qed

text \<open>The engine of the examples.\<close>

lemma demo_engine_sel:
  "jpegload_buffer_seq (demo_engine i s) = (\<lambda>b. ok i)"
  "pngload_buffer_seq (demo_engine i s) = (\<lambda>b. ok i)"
  "webpload_buffer_custom (demo_engine i s) = (\<lambda>b. ok i)"
  "jpegload_buffer_shrink (demo_engine i s) = (\<lambda>b k. scaled k (Some i))"
  "colourspace_0 (demo_engine i s) = scaled 1"
  "jpegsave_custom (demo_engine i s) = (\<lambda>p s q n. ok [0xff, 0xd8, 0xff])"
  "pngsave_custom (demo_engine i s) = (\<lambda>p s q n. ok [0x89, 0x50, 0x4e])"
  "webpsave_custom (demo_engine i s) = (\<lambda>p q. ok [0x52, 0x49, 0x46])"
  "rot (demo_engine i s) = (\<lambda>p a. scaled 1 p)"
  "flip_bridge (demo_engine i s) = (\<lambda>p d. scaled 1 p)"
  "autorotate (demo_engine i s) = scaled 1"
  "load_from_file (demo_engine i s) = (\<lambda>f. ok i)"
  by (simp_all add: demo_engine_def)

lemma scaled_1: "scaled 1 (Some i) = ok i"
  by (simp add: scaled_def)

lemma native_sel:
  "status (ok x) = 0" "out (ok x) = Some x" "message (ok x) = []"
  "status (failed m) = - 1" "out (failed m) = None" "message (failed m) = m"
  by (simp_all add: ok_def failed_def)

lemma demo_orientation: "vipsExifOrientation (demo_engine i s) p = atoi s"
  by (simp add: vipsExifOrientation_def vips_exif_orientation_def demo_engine_def)

lemma atoi_digit: "atoi ''1'' = 1" "atoi ''2'' = 2" "atoi ''6'' = 6"
  by (simp_all add: atoi_def isspace_def isdigit_def)

lemma getAngle_90: "getAngle exact_fpu 90 = 90"
  by (simp add: getAngle_def exact_fpu_def float64_def math_Min_def int_of_float_def trunc_def
      signed_modulo_int_def)

lemma fed_png:
  "run [detect, feed (demo_engine i s)] (enter w (slice_of png_bytes) opt) =
     Inr ((enter w (slice_of png_bytes) opt)
            \<lparr>imgtype := PNG, img := Some i,
             world := w\<lparr>calls := calls w @ [Pngload_buffer_seq png_bytes]\<rparr>\<rparr>)"
  by (simp add: detect_def feed_def reslice_def cap_def from_first_def elems_def slice_of_def
      png_bytes_def enter_def MARKER_JPEG_def MARKER_PNG_def demo_engine_sel native_sel
      written_def called_def invoke_def)

subsection \<open>The enlarge guard\<close>

lemma plan_guard:
  assumes i: "img s0 = Some i"
    and opt: "\<not> Enlarge (opts s0)" "0 < Width (opts s0)" "0 < Height (opts s0)"
    and small: "Xsize i < Width (opts s0)" "Ysize i < Height (opts s0)"
  shows "\<exists>s1. run (plan fp) s0 = Inr s1
       \<and> factor s1 = Finite 1 \<and> shrink s1 = 1 \<and> residual s1 = Finite 0 \<and> shrinkOnLoad s1 = 1
       \<and> opts s1 = (opts s0)\<lparr>Quality := (if Quality (opts s0) = 0 then 100 else Quality (opts s0)),
                               Width := Xsize i, Height := Ysize i\<rparr>
       \<and> img s1 = Some i \<and> tmpImage s1 = tmpImage s0 \<and> world s1 = world s0"
  using assms
  by (simp add: plan_def defaults_def get_WxH_def image_calculations_def shrink_and_residual_def
      do_not_enlarge_def shrink_on_load_def Let_def)

lemma transform_identity:
  assumes "shrinkOnLoad s = 1" "shrink s = 1" "residual s = Finite 0" "img s = Some i"
    and "Width (opts s) = Xsize i" "Height (opts s) = Ysize i"
  shows "run (transform fp eng) s = Inr s"
  using assms
  by (simp add: transform_def reload_def shrink_image_def affine_def crop_embed_def fne_def)

text \<open>
  C1. Let the buffer be recognised and fed, so that \<^verbatim>\<open>image\<close> points to an image \<open>i\<close>
  (\<open>inWidth = Xsize i\<close>, \<open>inHeight = Ysize i\<close>), and let \<open>Enlarge\<close> be false, \<open>Width\<close> and
  \<open>Height\<close> positive, \<open>inWidth < Width\<close> and \<open>inHeight < Height\<close>. Then \<^verbatim>\<open>Resize\<close> ends
  with the identity plan, \<open>factor = 1\<close>, \<open>shrink = 1\<close>, \<open>residual = 0\<close> (and no
  shrink-on-load), with \<open>o.Width = inWidth\<close> and \<open>o.Height = inHeight\<close>; the library is
  asked for no shrink, affine transformation, crop or embedding: after the load, the only
  calls are the colour space conversion of \<open>i\<close> itself, the save of its result and the
  clean-up, and the saved buffer is returned without an error.
\<close>

theorem Resize_enlarge_guard:
  assumes fed: "run [detect, feed eng] (enter w b opt) = Inr s0"
    and i: "img s0 = Some i"
    and opt: "\<not> Enlarge opt" "0 < Width opt" "0 < Height opt"
    and small: "Xsize i < Width opt" "Ysize i < Height opt"
  shows "case Resize_frame fp eng w b opt of
           (x, s) \<Rightarrow>
             factor s = Finite 1 \<and> shrink s = 1 \<and> residual s = Finite 0 \<and> shrinkOnLoad s = 1
             \<and> opts s = opt\<lparr>Quality := (if Quality opt = 0 then 100 else Quality opt),
                              Width := Xsize i, Height := Ysize i\<rparr>
             \<and> calls (world s) =
                 calls (world s0) @
                 [Colourspace_0 (Some i), save_call (out (colourspace_0 eng (Some i))) (opts s),
                  Thread_shutdown, Error_clear]
             \<and> x = Returns (Some (GoBytes
                        (save_native eng (out (colourspace_0 eng (Some i))) (opts s)))) None"
proof -
  have s0: "opts s0 = opt" "tmpImage s0 = None"
    using fed_frame [OF fed] by simp_all
  from plan_guard [of s0 i fp] i opt small s0
  obtain s1 where p: "run (plan fp) s0 = Inr s1"
    and s1: "factor s1 = Finite 1" "shrink s1 = 1" "residual s1 = Finite 0" "shrinkOnLoad s1 = 1"
      "opts s1 = opt\<lparr>Quality := (if Quality opt = 0 then 100 else Quality opt),
                       Width := Xsize i, Height := Ysize i\<rparr>"
      "img s1 = Some i" "tmpImage s1 = None" "world s1 = world s0"
    by auto
  have t: "run (transform fp eng) s1 = Inr s1"
    using s1 by (intro transform_identity) simp_all
  have "Resize_frame fp eng w b opt = deferred (convert_and_save eng s1)"
    unfolding Resize_frame_def fed by (simp add: run_append p t)
  then show ?thesis
    using s1
    by (simp add: deferred_def convert_and_save_def save_def called_def invoke_def written_def
        cleanup_def vips_error_clear_def vips_thread_shutdown_def Let_def split: option.splits)
qed

theorem Resize_enlarge_guard_witness:
  "case Resize_frame exact_fpu (demo_engine image_100x100 ''1'') world_zero (slice_of png_bytes)
          (Options_zero\<lparr>Width := 500, Height := 500, Savetype := PNG\<rparr>) of
     (x, s) \<Rightarrow>
       factor s = Finite 1 \<and> shrink s = 1 \<and> residual s = Finite 0
       \<and> Width (opts s) = 100 \<and> Height (opts s) = 100
       \<and> calls (world s) =
           [Pngload_buffer_seq png_bytes, Colourspace_0 (Some image_100x100),
            Pngsave_custom (Some image_100x100) 1 100 0, Thread_shutdown, Error_clear]
       \<and> x = Returns (Some [0x89, 0x50, 0x4e]) None"
proof -
  let ?opt = "Options_zero\<lparr>Width := 500, Height := 500, Savetype := PNG\<rparr>"
  let ?eng = "demo_engine image_100x100 ''1''"
  let ?s0 = "(enter world_zero (slice_of png_bytes) ?opt)
               \<lparr>imgtype := PNG, img := Some image_100x100,
                world := world_zero\<lparr>calls := calls world_zero @ [Pngload_buffer_seq png_bytes]\<rparr>\<rparr>"
  have fed: "run [detect, feed ?eng] (enter world_zero (slice_of png_bytes) ?opt) = Inr ?s0"
    by (rule fed_png)
  have i: "img ?s0 = Some image_100x100" by simp
  from Resize_enlarge_guard [OF fed i, of exact_fpu]
  show ?thesis
    by (simp add: Options_zero_def image_100x100_def world_zero_def save_call_def save_native_def
        GoBytes_def demo_engine_sel scaled_1 native_sel C_int_small split: prod.splits)
qed


subsection \<open>The orientation table\<close>

text \<open>
  C2. With no explicit rotation (angle 0), \<^verbatim>\<open>calculateRotationAndFlip\<close> returns, for the
  EXIF orientation value \<open>v\<close> of the image, the pair of the specification's table:
  1 gives (0, false), 2 gives (0, true), 3 gives (180, false), 4 gives (180, true),
  5 gives (270, true), 6 gives (90, false), 7 gives (90, true), 8 gives (270, false),
  and 0 and every value outside 1..8 give (0, false).
\<close>

theorem calculateRotationAndFlip_table:
  "calculateRotationAndFlip eng p 0 = resolveOrientation (vipsExifOrientation eng p)"
  by (simp add: calculateRotationAndFlip_def resolveOrientation_def D0_def D90_def D180_def
      D270_def Let_def)

subsection \<open>Rotation and flip together\<close>

text \<open>
  C3, as the specification states it, fails: with \<open>NoAutoRotate\<close> false and the explicit
  rotation 90, an image whose EXIF orientation is 2 (which resolves to a flip) is rotated
  and not flipped.
\<close>

theorem rotateAndFlipImage_exif_flip_counterexample:
  "NoAutoRotate (Options_zero\<lparr>Rotate := 90\<rparr>) = False
   \<and> calculateRotationAndFlip (demo_engine image_100x100 ''2'') (Some image_100x100) 0 = (0, True)
   \<and> rotateAndFlipImage exact_fpu (demo_engine image_100x100 ''2'') world_zero
        (Some image_100x100) (Options_zero\<lparr>Rotate := 90\<rparr>)
      = ((Some image_100x100, None),
         \<lparr>calls = [Rot (Some image_100x100) VIPS_ANGLE_D90], error_buffer = []\<rparr>)"
  by (simp add: rotateAndFlipImage_def calculateRotationAndFlip_def D0_def Options_zero_def
      getAngle_90 vipsRotate_def vips_rotate_def C_int_small demo_engine_sel scaled_1 native_sel
      invoke_def world_zero_def VIPS_ANGLE_D90_def demo_orientation atoi_digit)

text \<open>
  C3, amended. With a positive explicit rotation the EXIF orientation is not consulted,
  whatever \<open>NoAutoRotate\<close> is: the image is rotated by the caller's angle (normalised by
  \<^verbatim>\<open>getAngle\<close>), and it is flipped only on the caller's own request, horizontally for
  \<open>Flip\<close>, else vertically for \<open>Flop\<close>. Neither the rotation nor the flip of the EXIF
  orientation is applied.
\<close>

theorem rotateAndFlipImage_explicit_rotation:
  assumes "0 < Rotate opt"
  shows "rotateAndFlipImage fp eng w p opt =
     (let ((im, err), w1) = vipsRotate eng w p (getAngle fp (Rotate opt)) in
      if Flip opt then vipsFlip eng w1 im HORIZONTAL
      else if Flop opt then vipsFlip eng w1 im VERTICAL
      else ((im, err), w1))"
  using assms
  by (simp add: rotateAndFlipImage_def calculateRotationAndFlip_def D0_def HORIZONTAL_def
      VERTICAL_def Let_def split: prod.splits)

theorem rotateAndFlipImage_explicit_rotation_witness:
  "rotateAndFlipImage exact_fpu (demo_engine image_100x100 ''2'') world_zero (Some image_100x100)
     (Options_zero\<lparr>Rotate := 90, Flop := True\<rparr>)
   = ((Some image_100x100, None),
      \<lparr>calls = [Rot (Some image_100x100) VIPS_ANGLE_D90,
                Flip_bridge (Some image_100x100) VERTICAL],
       error_buffer = []\<rparr>)"
  using rotateAndFlipImage_explicit_rotation
    [of "Options_zero\<lparr>Rotate := 90, Flop := True\<rparr>" exact_fpu
        "demo_engine image_100x100 ''2''" world_zero "Some image_100x100"]
  by (simp add: Options_zero_def getAngle_90 vipsRotate_def vips_rotate_def vipsFlip_def C_int_def
      demo_engine_sel scaled_1 native_sel invoke_def world_zero_def VIPS_ANGLE_D90_def
      VERTICAL_def)

subsection \<open>Shrink-on-load\<close>

text \<open>
  C4. The statements of lines 233 to 247 set \<open>shrinkOnLoad\<close> to \<open>k\<close>, where \<open>k\<close> is, for a
  JPEG input, 8 if \<open>shrink \<ge> 8\<close>, else 4 if \<open>shrink \<ge> 4\<close>, else 2 if \<open>shrink \<ge> 2\<close>, else
  1, and 1 for every other input; they divide \<open>factor\<close> by \<open>k\<close> when \<open>k\<close> is not 1 and
  leave it otherwise. When \<open>k = 1\<close> the reload that follows does nothing (no
  shrink-on-load is used); when \<open>k > 1\<close> the reload asks the library for the JPEG shrunk
  by \<open>k\<close>.
\<close>

theorem shrink_on_load_selection:
  "let k = (if imgtype s = JPEG
            then (if 8 \<le> shrink s then 8 else if 4 \<le> shrink s then 4
                  else if 2 \<le> shrink s then 2 else 1)
            else 1 :: int)
   in shrink_on_load fp s =
        Inr (s\<lparr>shrinkOnLoad := k,
               factor := (if k = 1 then factor s
                          else fdiv (round64 fp) (factor s) (Finite (of_int k)))\<rparr>)
    \<and> (k = 1 \<longrightarrow> run [shrink_on_load fp, reload fp eng] s = Inr (s\<lparr>shrinkOnLoad := 1\<rparr>))
    \<and> (1 < k \<and> 0 < len (buf s) \<longrightarrow>
          calls (world (last_frame (run [shrink_on_load fp, reload fp eng] s))) =
            calls (world s) @ Jpegload_buffer_shrink (elems (buf s)) k #
              (if status (jpegload_buffer_shrink eng (elems (buf s)) k) = 0 then []
               else [Error_clear]))"
  by (simp add: Let_def shrink_on_load_def reload_def from_first_def C_int_small called_def
      invoke_def return_resizeError_def resizeError_def vips_error_clear_def last_frame_def)

theorem shrink_on_load_selection_witness:
  "shrink_on_load exact_fpu
     ((enter world_zero (slice_of jpeg_bytes) Options_zero)
        \<lparr>imgtype := JPEG, factor := Finite 10, shrink := 10\<rparr>)
   = Inr ((enter world_zero (slice_of jpeg_bytes) Options_zero)
            \<lparr>imgtype := JPEG, factor := Finite (5 / 4), shrink := 10, shrinkOnLoad := 8\<rparr>)
   \<and> calls (world (last_frame
        (run [shrink_on_load exact_fpu, reload exact_fpu (demo_engine image_4000x3000 ''1'')]
           ((enter world_zero (slice_of jpeg_bytes) Options_zero)
              \<lparr>imgtype := JPEG, factor := Finite 10, shrink := 10\<rparr>))))
     = [Jpegload_buffer_shrink jpeg_bytes 8]
   \<and> run [shrink_on_load exact_fpu, reload exact_fpu (demo_engine image_4000x3000 ''1'')]
        ((enter world_zero (slice_of jpeg_bytes) Options_zero)
           \<lparr>imgtype := PNG, factor := Finite 10, shrink := 10\<rparr>)
     = Inr ((enter world_zero (slice_of jpeg_bytes) Options_zero)
              \<lparr>imgtype := PNG, factor := Finite 10, shrink := 10, shrinkOnLoad := 1\<rparr>)"
  using shrink_on_load_selection
    [of "(enter world_zero (slice_of jpeg_bytes) Options_zero)
           \<lparr>imgtype := JPEG, factor := Finite 10, shrink := 10\<rparr>"
        exact_fpu "demo_engine image_4000x3000 ''1''"]
    shrink_on_load_selection
    [of "(enter world_zero (slice_of jpeg_bytes) Options_zero)
           \<lparr>imgtype := PNG, factor := Finite 10, shrink := 10\<rparr>"
        exact_fpu "demo_engine image_4000x3000 ''1''"]
  by (simp add: enter_def exact_fpu_def slice_of_def jpeg_bytes_def elems_def world_zero_def
      demo_engine_sel scaled_def native_sel del: run.simps)


subsection \<open>The crop origin\<close>

text \<open>
  C5. For \<open>inWidth \<ge> outWidth \<ge> 0\<close> and \<open>inHeight \<ge> outHeight \<ge> 0\<close>, \<^verbatim>\<open>sharpCalcCrop\<close>
  returns \<open>((inW - outW + 1) / 2, (inH - outH + 1) / 2)\<close> for \<open>CENTRE\<close> and for every
  gravity that is none of the six constants, \<open>((inW - outW + 1) / 2, 0)\<close> for \<open>NORTH\<close>,
  \<open>((inW - outW + 1) / 2, inH - outH)\<close> for \<open>SOUTH\<close>, \<open>(inW - outW, (inH - outH + 1) / 2)\<close>
  for \<open>EAST\<close> and \<open>(0, (inH - outH + 1) / 2)\<close> for \<open>WEST\<close>; for \<open>CENTRE\<close> the result
  satisfies \<open>0 \<le> left\<close>, \<open>left + outW \<le> inW\<close>, \<open>0 \<le> top\<close> and \<open>top + outH \<le> inH\<close>.
  The division of the formulas is the division of the integers that rounds down, with which
  Go's agrees here, the numerators not being negative.
\<close>

theorem sharpCalcCrop_formulas:
  assumes "0 \<le> outW" "outW \<le> inW" "0 \<le> outH" "outH \<le> inH"
  shows "(g = CENTRE \<or> g \<notin> {NORTH, EAST, SOUTH, WEST, CUSTOM} \<longrightarrow>
            sharpCalcCrop fp inW inH outW outH lp tp g
              = ((inW - outW + 1) div 2, (inH - outH + 1) div 2))
       \<and> sharpCalcCrop fp inW inH outW outH lp tp NORTH = ((inW - outW + 1) div 2, 0)
       \<and> sharpCalcCrop fp inW inH outW outH lp tp SOUTH = ((inW - outW + 1) div 2, inH - outH)
       \<and> sharpCalcCrop fp inW inH outW outH lp tp EAST = (inW - outW, (inH - outH + 1) div 2)
       \<and> sharpCalcCrop fp inW inH outW outH lp tp WEST = (0, (inH - outH + 1) div 2)
       \<and> (case sharpCalcCrop fp inW inH outW outH lp tp CENTRE of
            (l, t) \<Rightarrow> 0 \<le> l \<and> l + outW \<le> inW \<and> 0 \<le> t \<and> t + outH \<le> inH)"
proof -
  have w: "(inW - outW + 1) sdiv 2 = (inW - outW + 1) div 2"
    using assms by (simp add: sdiv_2_nonneg)
  have h: "(inH - outH + 1) sdiv 2 = (inH - outH + 1) div 2"
    using assms by (simp add: sdiv_2_nonneg)
  have c: "sharpCalcCrop fp inW inH outW outH lp tp CENTRE
             = ((inW - outW + 1) div 2, (inH - outH + 1) div 2)"
    by (simp add: sharpCalcCrop_def w h CENTRE_def NORTH_def EAST_def SOUTH_def WEST_def
        CUSTOM_def)
  have b: "0 \<le> (inW - outW + 1) div 2 \<and> (inW - outW + 1) div 2 + outW \<le> inW
         \<and> 0 \<le> (inH - outH + 1) div 2 \<and> (inH - outH + 1) div 2 + outH \<le> inH"
    using assms by linarith
  show ?thesis
    using b unfolding c
    by (auto simp add: sharpCalcCrop_def w h CENTRE_def NORTH_def EAST_def SOUTH_def WEST_def
        CUSTOM_def)
qed

theorem sharpCalcCrop_formulas_witness:
  "sharpCalcCrop exact_fpu 10 7 5 4 (Finite 0) (Finite 0) CENTRE = (3, 2)
   \<and> sharpCalcCrop exact_fpu 10 7 5 4 (Finite 0) (Finite 0) 9 = (3, 2)
   \<and> sharpCalcCrop exact_fpu 10 7 5 4 (Finite 0) (Finite 0) NORTH = (3, 0)
   \<and> sharpCalcCrop exact_fpu 10 7 5 4 (Finite 0) (Finite 0) SOUTH = (3, 3)
   \<and> sharpCalcCrop exact_fpu 10 7 5 4 (Finite 0) (Finite 0) EAST = (5, 2)
   \<and> sharpCalcCrop exact_fpu 10 7 5 4 (Finite 0) (Finite 0) WEST = (0, 2)"
  using sharpCalcCrop_formulas [of 5 10 4 7 CENTRE exact_fpu "Finite 0" "Finite 0"]
    sharpCalcCrop_formulas [of 5 10 4 7 9 exact_fpu "Finite 0" "Finite 0"]
  by (simp add: CENTRE_def NORTH_def EAST_def SOUTH_def WEST_def CUSTOM_def)

subsection \<open>The format sniffer on short buffers\<close>

text \<open>
  C6. \<^verbatim>\<open>Resize\<close> slices the buffer without looking at its length. On the empty buffer
  \<^verbatim>\<open>buf[:2]\<close> panics; on the two bytes \<open>00 00\<close> \<^verbatim>\<open>buf[:4]\<close> panics; on the four bytes
  \<open>RIFF\<close> \<^verbatim>\<open>buf[8:12]\<close> panics: none of them gives the format error. The two bytes
  \<open>FF D8\<close> are not classified as unknown either: they are a JPEG.
\<close>

theorem Resize_short_buffer_panics:
  "Resize fp eng w \<lparr>backing = [], len = 0\<rparr> opt = (Panics SliceBoundsOutOfRange, w)
 \<and> Resize fp eng w \<lparr>backing = [0, 0], len = 2\<rparr> opt = (Panics SliceBoundsOutOfRange, w)
 \<and> Resize fp eng w \<lparr>backing = [0x52, 0x49, 0x46, 0x46], len = 4\<rparr> opt
      = (Panics SliceBoundsOutOfRange, w)
 \<and> detect (enter w \<lparr>backing = [0xff, 0xd8], len = 2\<rparr> opt)
      = Inr ((enter w \<lparr>backing = [0xff, 0xd8], len = 2\<rparr> opt)\<lparr>imgtype := JPEG\<rparr>)"
  by (simp add: Resize_def Resize_frame_def detect_def reslice_def cap_def enter_def
      MARKER_JPEG_def MARKER_PNG_def MARKER_RIFF_def)

subsection \<open>A load that fails\<close>

text \<open>
  C7. When the buffer is recognised (as JPEG, PNG or WEBP) and the load writes no image,
  \<^verbatim>\<open>Resize\<close> does not return the library's error: the status of the load is dropped, the
  read of \<^verbatim>\<open>image.Xsize\<close> panics on the \<^verbatim>\<open>nil\<close> pointer, and the deferred clean-up
  empties the error buffer.
\<close>

theorem Resize_load_failure:
  assumes d: "detect (enter w b opt) = Inr s" and l: "0 < len b"
    and f: "out (jpegload_buffer_seq eng (elems b)) = None"
      "out (pngload_buffer_seq eng (elems b)) = None"
      "out (webpload_buffer_custom eng (elems b)) = None"
  shows "fst (Resize fp eng w b opt) = Panics NilPointerDereference
       \<and> error_buffer (snd (Resize fp eng w b opt)) = []"
proof -
  from detect_frame [OF d]
  obtain t where s: "s = (enter w b opt)\<lparr>imgtype := t\<rparr>" and t: "t \<noteq> UNKNOWN"
    by blast
  have "\<exists>s'. feed eng s = Inr s' \<and> img s' = None"
    using l f t unfolding s
    by (cases t) (simp_all add: feed_def from_first_def enter_def written_def called_def)
  then obtain s' where f': "feed eng s = Inr s'" and n: "img s' = None" by blast
  have "run (plan fp @ transform fp eng) s' = Inl (Panics NilPointerDereference,
          (if Quality (opts s') = 0 then s'\<lparr>opts := (opts s')\<lparr>Quality := 100\<rparr>\<rparr> else s'))"
    using n by (simp add: plan_def defaults_def get_WxH_def)
  then show ?thesis
    by (simp add: Resize_def Resize_frame_def d f' deferred_def cleanup_def
      vips_error_clear_def vips_thread_shutdown_def)
qed

theorem Resize_load_failure_witness:
  "Resize exact_fpu
     ((demo_engine image_100x100 ''1'')
        \<lparr>jpegload_buffer_seq := \<lambda>b. failed ''VipsJpeg: Premature end of JPEG file'',
         pngload_buffer_seq := \<lambda>b. failed ''vipspng: not a PNG'',
         webpload_buffer_custom := \<lambda>b. failed ''webp: unable to parse''\<rparr>)
     world_zero (slice_of jpeg_bytes) Options_zero
   = (Panics NilPointerDereference,
      \<lparr>calls = [Jpegload_buffer_seq jpeg_bytes, Thread_shutdown, Error_clear],
       error_buffer = []\<rparr>)"
proof -
  let ?eng = "(demo_engine image_100x100 ''1'')
        \<lparr>jpegload_buffer_seq := \<lambda>b. failed ''VipsJpeg: Premature end of JPEG file'',
         pngload_buffer_seq := \<lambda>b. failed ''vipspng: not a PNG'',
         webpload_buffer_custom := \<lambda>b. failed ''webp: unable to parse''\<rparr>"
  have d: "detect (enter world_zero (slice_of jpeg_bytes) Options_zero)
             = Inr ((enter world_zero (slice_of jpeg_bytes) Options_zero)\<lparr>imgtype := JPEG\<rparr>)"
    by (simp add: detect_def reslice_def cap_def slice_of_def jpeg_bytes_def enter_def
        MARKER_JPEG_def)
  have l: "0 < len (slice_of jpeg_bytes)"
    by (simp add: slice_of_def jpeg_bytes_def)
  have c: "calls (snd (Resize exact_fpu ?eng world_zero (slice_of jpeg_bytes) Options_zero))
             = [Jpegload_buffer_seq jpeg_bytes, Thread_shutdown, Error_clear]"
    unfolding Resize_def Resize_frame_def run.simps d
    by (simp add: feed_def from_first_def elems_def slice_of_def jpeg_bytes_def enter_def
        native_sel written_def called_def invoke_def plan_def defaults_def get_WxH_def
        deferred_def cleanup_def vips_error_clear_def vips_thread_shutdown_def world_zero_def
        Options_zero_def)
  from Resize_load_failure [OF d l, of ?eng exact_fpu] c
  show ?thesis
    by (cases "Resize exact_fpu ?eng world_zero (slice_of jpeg_bytes) Options_zero")
      (simp add: native_sel)
qed


subsection \<open>AutoRotate\<close>

text \<open>
  C8, as the specification states it, fails in its last part: an image that was loaded
  and whose orientation resolves to a rotation is not always answered with the re-encoded
  buffer. When the library's auto-rotation fails, \<^verbatim>\<open>AutoRotate\<close> returns \<^verbatim>\<open>nil\<close> and the
  library's error.
\<close>

theorem AutoRotate_failure_counterexample:
  "out (load_from_file
          ((demo_engine image_100x100 ''6'')\<lparr>autorotate := \<lambda>p. failed ''autorot: failed''\<rparr>)
          ''photo.jpg'') = Some image_100x100
   \<and> calculateRotationAndFlip
        ((demo_engine image_100x100 ''6'')\<lparr>autorotate := \<lambda>p. failed ''autorot: failed''\<rparr>)
        (Some image_100x100) 0 = (90, False)
   \<and> AutoRotate
        ((demo_engine image_100x100 ''6'')\<lparr>autorotate := \<lambda>p. failed ''autorot: failed''\<rparr>)
        world_zero ''photo.jpg'' Options_zero
      = (Returns None (Some ''autorot: failed''),
         \<lparr>calls = [Load_from_file ''photo.jpg'', Autorotate (Some image_100x100), Error_clear,
                   Thread_shutdown, Thread_shutdown, Error_clear],
          error_buffer = []\<rparr>)"
  by (simp add: AutoRotate_def calculateRotationAndFlip_def vipsExifOrientation_def
      vips_exif_orientation_def demo_engine_def atoi_digit D0_def D90_def native_sel invoke_def
      catchVipsError_def cleanup_def vips_error_clear_def vips_thread_shutdown_def world_zero_def
      Let_def)

text \<open>
  C8, amended. For every image that was loaded: if its orientation resolves to rotation 0
  and no flip, \<^verbatim>\<open>AutoRotate\<close> returns a \<^verbatim>\<open>nil\<close> buffer with a \<^verbatim>\<open>nil\<close> error, and the
  library is asked for nothing after the load but the clean-up (no auto-rotation, no
  save). Otherwise the library's auto-rotation is called; when it succeeds,
  \<^verbatim>\<open>AutoRotate\<close> returns the buffer of the save (with quality 100 for quality 0) and a
  \<^verbatim>\<open>nil\<close> error, and when it fails, a \<^verbatim>\<open>nil\<close> buffer and the content of the error
  buffer.
\<close>

theorem AutoRotate_unchanged:
  assumes "out (load_from_file eng file) = Some i"
  shows "(calculateRotationAndFlip eng (Some i) 0 = (0, False) \<longrightarrow>
            AutoRotate eng w file opt =
              (Returns None None,
               \<lparr>calls = calls w @ [Load_from_file file, Thread_shutdown, Error_clear],
                error_buffer = []\<rparr>))
       \<and> (calculateRotationAndFlip eng (Some i) 0 \<noteq> (0, False)
            \<and> status (autorotate eng (Some i)) = 0 \<longrightarrow>
            (let opt' = (if Quality opt = 0 then opt\<lparr>Quality := 100\<rparr> else opt);
                 t = out (autorotate eng (Some i))
             in AutoRotate eng w file opt =
                  (Returns (Some (GoBytes (save_native eng t opt'))) None,
                   \<lparr>calls = calls w @ [Load_from_file file, Autorotate (Some i), save_call t opt',
                                       Thread_shutdown, Error_clear],
                    error_buffer = []\<rparr>)))
       \<and> (calculateRotationAndFlip eng (Some i) 0 \<noteq> (0, False)
            \<and> status (autorotate eng (Some i)) \<noteq> 0 \<longrightarrow>
            AutoRotate eng w file opt =
              (Returns None (Some (error_buffer w @ message (load_from_file eng file)
                                     @ message (autorotate eng (Some i)))),
               \<lparr>calls = calls w @ [Load_from_file file, Autorotate (Some i), Error_clear,
                                   Thread_shutdown, Thread_shutdown, Error_clear],
                error_buffer = []\<rparr>))"
  using assms
  by (auto simp add: AutoRotate_def Let_def invoke_def cleanup_def catchVipsError_def save_def
      vips_error_clear_def vips_thread_shutdown_def split: prod.splits)

theorem AutoRotate_unchanged_witness:
  "AutoRotate (demo_engine image_100x100 ''1'') world_zero ''photo.jpg'' Options_zero
     = (Returns None None,
        \<lparr>calls = [Load_from_file ''photo.jpg'', Thread_shutdown, Error_clear],
         error_buffer = []\<rparr>)
   \<and> AutoRotate (demo_engine image_100x100 ''6'') world_zero ''photo.jpg'' Options_zero
     = (Returns (Some [0xff, 0xd8, 0xff]) None,
        \<lparr>calls = [Load_from_file ''photo.jpg'', Autorotate (Some image_100x100),
                  Jpegsave_custom (Some image_100x100) 1 100 0, Thread_shutdown, Error_clear],
         error_buffer = []\<rparr>)
   \<and> fst (AutoRotate
        ((demo_engine image_100x100 ''6'')\<lparr>autorotate := \<lambda>p. failed ''autorot: failed''\<rparr>)
        world_zero ''photo.jpg'' Options_zero)
     = Returns None (Some ''autorot: failed'')"
proof -
  have 1: "calculateRotationAndFlip (demo_engine image_100x100 ''1'') (Some image_100x100) 0
             = (0, False)"
    by (simp add: calculateRotationAndFlip_def demo_orientation atoi_digit D0_def)
  have 6: "calculateRotationAndFlip (demo_engine image_100x100 ''6'') (Some image_100x100) 0
             = (90, False)"
    by (simp add: calculateRotationAndFlip_def demo_orientation atoi_digit D90_def)
  have 7: "calculateRotationAndFlip
             ((demo_engine image_100x100 ''6'')\<lparr>autorotate := \<lambda>p. failed ''autorot: failed''\<rparr>)
             (Some image_100x100) 0 = (90, False)"
    by (simp add: calculateRotationAndFlip_def vipsExifOrientation_def
        vips_exif_orientation_def demo_engine_def atoi_digit D90_def)
  have l: "out (load_from_file (demo_engine image_100x100 s) ''photo.jpg'') = Some image_100x100"
    for s by (simp add: demo_engine_sel native_sel)
  have l': "out (load_from_file
               ((demo_engine image_100x100 ''6'')\<lparr>autorotate := \<lambda>p. failed ''autorot: failed''\<rparr>)
               ''photo.jpg'') = Some image_100x100"
    by (simp add: demo_engine_sel native_sel)
  from AutoRotate_unchanged [OF l, of "''1''" world_zero Options_zero]
    AutoRotate_unchanged [OF l, of "''6''" world_zero Options_zero]
    AutoRotate_unchanged [OF l', of world_zero Options_zero]
  show ?thesis
    by (simp add: 1 6 7 demo_engine_sel scaled_1 native_sel world_zero_def Options_zero_def
        save_native_def save_call_def GoBytes_def C_int_small Let_def)
qed

subsection \<open>getAngle\<close>

text \<open>
  C9, as the specification states it, fails: \<^verbatim>\<open>getAngle\<close> leaves a negative multiple of
  90 as it is, so that its result for -90 is -90, none of 0, 90, 180 and 270.
\<close>

theorem getAngle_negative_counterexample:
  "getAngle exact_fpu (- 90) = - 90 \<and> getAngle exact_fpu (- 90) \<notin> {0, 90, 180, 270}"
  by (simp add: getAngle_def exact_fpu_def float64_def math_Min_def int_of_float_def trunc_def
      signed_modulo_int_def)

lemma getAngle_nonneg:
  assumes r: "binary64_rounding (round64 fp)" and a: "0 \<le> angle"
  shows "getAngle fp angle = min (90 * (angle div 90)) 270"
proof -
  define b where "b = 90 * (angle div 90)"
  have sm: "angle smod 90 = angle mod 90"
    using a by (simp add: signed_modulo_int_def sgn_if)
  have b1: "(if angle smod 90 \<noteq> 0 then angle - angle smod 90 else angle) = b"
    unfolding sm b_def by (auto simp: minus_mod_eq_mult_div)
  have b0: "0 \<le> b" using a by (simp add: b_def)
  have mono: "\<And>x y. x \<le> y \<Longrightarrow> round64 fp x \<le> round64 fp y"
    and exact: "\<And>n::int. \<bar>n\<bar> \<le> 2 ^ 53 \<Longrightarrow> round64 fp (of_int n) = of_int n"
    using r by (auto simp: binary64_rounding_def)
  have g: "getAngle fp angle = int_of_float fp (math_Min (float64 fp b) (Finite 270))"
    by (simp add: getAngle_def b1 Let_def)
  show ?thesis
  proof (cases "b \<le> 270")
    case True
    then have "round64 fp (of_int b) = of_int b" using b0 exact [of b] by simp
    then have "math_Min (float64 fp b) (Finite 270) = Finite (of_int b)"
      using True by (simp add: math_Min_def float64_def)
    then show ?thesis using True b0 unfolding g b_def [symmetric]
      by (simp add: int_of_float_def trunc_of_int)
  next
    case False
    have "round64 fp (of_int (270::int)) = of_int 270" using exact [of 270] by simp
    moreover have "round64 fp (of_int 270) \<le> round64 fp (of_int b)"
      using False by (intro mono) simp
    ultimately have ge: "270 \<le> round64 fp (of_int b)" by simp
    have "math_Min (float64 fp b) (Finite 270) = Finite 270"
      using ge by (auto simp add: math_Min_def float64_def)
    then show ?thesis using False unfolding g b_def [symmetric]
      using trunc_of_int [of 270] by (simp add: int_of_float_def)
  qed
qed

text \<open>
  C9, amended. For every angle that is not negative (the one call of \<^verbatim>\<open>getAngle\<close>, in
  \<^verbatim>\<open>rotateAndFlipImage\<close>, passes a positive angle), the result is the angle rounded down
  to a multiple of 90 and capped at 270, one of 0, 90, 180 and 270. The rounding of
  \<^verbatim>\<open>float64\<close> is any that is monotone and exact on the integers up to \<open>2 ^ 53\<close>.
\<close>

theorem getAngle_normalised:
  assumes "binary64_rounding (round64 fp)" and "0 \<le> angle"
  shows "getAngle fp angle = min (90 * (angle div 90)) 270
       \<and> getAngle fp angle \<in> {0, 90, 180, 270}"
proof -
  have e: "getAngle fp angle = min (90 * (angle div 90)) 270"
    using assms by (rule getAngle_nonneg)
  have "0 \<le> angle div 90" using assms(2) by simp
  then have "min (90 * (angle div 90)) 270 \<in> {0, 90, 180, 270}"
    by (auto simp: min_def)
  with e show ?thesis by simp
qed

theorem getAngle_normalised_witness:
  "binary64_rounding (round64 exact_fpu) \<and> getAngle exact_fpu 200 = 180
   \<and> getAngle exact_fpu 1000 = 270"
  using getAngle_normalised [OF binary64_rounding_exact, of 200]
    getAngle_normalised [OF binary64_rounding_exact, of 1000] binary64_rounding_exact
  by simp

subsection \<open>The caller's Options\<close>

text \<open>
  C10. A call of \<^verbatim>\<open>Resize\<close> on the caller's variable \<open>v\<close> returns what \<^verbatim>\<open>Resize\<close>
  computes from the value of \<open>v\<close> and leaves every variable of the caller, \<open>v\<close> among
  them, as it was: what the planner assigns to \<^verbatim>\<open>o.Width\<close>, \<^verbatim>\<open>o.Height\<close> and
  \<^verbatim>\<open>o.Quality\<close> is in the parameter's own cell.
\<close>

theorem call_Resize_keeps_options:
  assumes "v < length st"
  shows "case call_Resize fp eng w st b v of
           (r, w', st') \<Rightarrow>
             (r, w') = Resize fp eng w b (st ! v)
             \<and> length st' = Suc (length st)
             \<and> (\<forall>a < length st. st' ! a = st ! a)
             \<and> st' ! length st = opts (snd (Resize_frame fp eng w b (st ! v)))"
  using assms
  by (simp add: call_Resize_def Resize_def Let_def nth_append split: prod.splits)

theorem call_Resize_keeps_options_witness:
  "case call_Resize exact_fpu (demo_engine image_100x100 ''1'') world_zero
          [Options_zero\<lparr>Width := 500, Height := 500, Savetype := PNG\<rparr>] (slice_of png_bytes) 0 of
     (r, w', st') \<Rightarrow>
       r = Returns (Some [0x89, 0x50, 0x4e]) None
       \<and> st' ! 0 = Options_zero\<lparr>Width := 500, Height := 500, Savetype := PNG\<rparr>
       \<and> st' ! 1 = Options_zero\<lparr>Width := 100, Height := 100, Savetype := PNG, Quality := 100\<rparr>"
proof -
  let ?opt = "Options_zero\<lparr>Width := 500, Height := 500, Savetype := PNG\<rparr>"
  let ?eng = "demo_engine image_100x100 ''1''"
  let ?s0 = "(enter world_zero (slice_of png_bytes) ?opt)
               \<lparr>imgtype := PNG, img := Some image_100x100,
                world := world_zero\<lparr>calls := calls world_zero @ [Pngload_buffer_seq png_bytes]\<rparr>\<rparr>"
  have fed: "run [detect, feed ?eng] (enter world_zero (slice_of png_bytes) ?opt) = Inr ?s0"
    by (rule fed_png)
  have f: "Resize_frame exact_fpu ?eng world_zero (slice_of png_bytes) ?opt
             = deferred (convert_and_save ?eng
                 (?s0\<lparr>opts := ?opt\<lparr>Quality := 100, Width := 100, Height := 100\<rparr>,
                      inWidth := 100, inHeight := 100, factor := Finite 1, shrink := 1,
                      residual := Finite 0, shrinkOnLoad := 1\<rparr>))"
    unfolding Resize_frame_def fed
    by (simp add: plan_def transform_def defaults_def get_WxH_def image_calculations_def
        shrink_and_residual_def do_not_enlarge_def shrink_on_load_def reload_def
        shrink_image_def affine_def crop_embed_def fne_def enter_def Options_zero_def
        image_100x100_def Let_def)
  have x: "fst (Resize_frame exact_fpu ?eng world_zero (slice_of png_bytes) ?opt)
             = Returns (Some [0x89, 0x50, 0x4e]) None"
    and o: "opts (snd (Resize_frame exact_fpu ?eng world_zero (slice_of png_bytes) ?opt))
             = ?opt\<lparr>Quality := 100, Width := 100, Height := 100\<rparr>"
    by (simp_all add: f deferred_def convert_and_save_def save_def save_native_def GoBytes_def
        demo_engine_sel native_sel called_def scaled_1 written_def Let_def split: prod.splits)
  have "(0::nat) < length [?opt]" by simp
  from call_Resize_keeps_options [OF this, of exact_fpu ?eng world_zero "slice_of png_bytes"]
  show ?thesis
    using x o by (auto simp add: Resize_def Options_zero_def split: prod.splits)
qed

end
